theory Spec2Isabelle
  imports Main "HOL-Library.Word" "HOL-Library.Char_ord" "HOL-Library.List_Lexorder"
begin

section \<open>Shared model of the Python runtime\<close>

text \<open>
  Exceptions raised by the sources are values of \<open>py_error\<close>; a call that may raise
  returns \<open>py_error + 'a\<close> with \<open>Inl\<close> for the exception. \<open>RuntimeError\<close> carries the
  exit status of the external archive tool.
\<close>

datatype py_error =
    KeyError
  | ValueError
  | IndexError
  | AttributeError
  | FileNotFoundError
  | NotImplementedError
  | RuntimeError int
  | FATException

type_synonym byte = "8 word"



definition is_digit :: "char \<Rightarrow> bool" where
  "is_digit c = (CHR ''0'' \<le> c \<and> c \<le> CHR ''9'')"

definition is_space :: "char \<Rightarrow> bool" where
  "is_space c = (c \<in> set [CHR '' '', CHR 0x09, CHR 0x0A, CHR 0x0B, CHR 0x0C, CHR 0x0D,
                           CHR 0x1C, CHR 0x1D, CHR 0x1E, CHR 0x1F])"

text \<open>
  \<open>s.split(sep)\<close> for a one-character separator is \<open>split_by (\<lambda>c. c = sep)\<close>: every
  separator ends a field, so the result is never empty. \<open>s.split()\<close> without an
  argument splits at runs of white space and drops the empty fields.
\<close>

fun split_by :: "(char \<Rightarrow> bool) \<Rightarrow> string \<Rightarrow> string list" where
  "split_by P [] = [[]]"
| "split_by P (c # cs) =
     (if P c then [] # split_by P cs
      else (case split_by P cs of
              [] \<Rightarrow> [[c]]
            | w # ws \<Rightarrow> (c # w) # ws))"

definition split_sep :: "char \<Rightarrow> string \<Rightarrow> string list" where
  "split_sep sep s = split_by (\<lambda>c. c = sep) s"

definition split_ws :: "string \<Rightarrow> string list" where
  "split_ws s = filter (\<lambda>w. w \<noteq> []) (split_by is_space s)"

text \<open>\<open>path.split('/')[-1]\<close>: the final path segment.\<close>

definition basename :: "string \<Rightarrow> string" where
  "basename path = last (split_sep CHR ''/'' path)"

text \<open>
  \<open>re.search(r'\.FL\d+', s)\<close>: the pattern is tried at every position of \<open>s\<close>; it
  matches at a position when the text there starts with \<open>.FL\<close> followed by a non-empty
  run of digits.
\<close>

definition match_here :: "string \<Rightarrow> bool" where
  "match_here s = (take 3 s = ''.FL'' \<and> takeWhile is_digit (drop 3 s) \<noteq> [])"

fun re_search :: "string \<Rightarrow> bool" where
  "re_search [] = False"
| "re_search (c # cs) = (match_here (c # cs) \<or> re_search cs)"

text \<open>
  A Python \<open>dict\<close> keeps its keys in the order of their first insertion; storing under
  a key that is present replaces the value and keeps the key's place.
\<close>

fun dict_setitem :: "'k \<Rightarrow> 'v \<Rightarrow> ('k \<times> 'v) list \<Rightarrow> ('k \<times> 'v) list" where
  "dict_setitem k v [] = [(k, v)]"
| "dict_setitem k v (p # ps) =
     (if fst p = k then (k, v) # ps else p # dict_setitem k v ps)"

definition dict_of_pairs :: "('k \<times> 'v) list \<Rightarrow> ('k \<times> 'v) list" where
  "dict_of_pairs ps = foldl (\<lambda>d p. dict_setitem (fst p) (snd p) d) [] ps"

definition dict_keys :: "('k \<times> 'v) list \<Rightarrow> 'k list" where
  "dict_keys d = map fst d"

section \<open>Firmware tree search (uefi-extract.py)\<close>












subsection \<open>Vocabulary of the specification\<close>





section \<open>Optical image backend (extractors/lenovo_iso.py)\<close>

subsection \<open>Partition table\<close>

text \<open>
  \<open>MbrPartitionTable\<close> is generated parser code that the backend imports; the only
  field the backend reads is the little-endian 32-bit \<open>lba_start\<close> of each entry, so a
  parsed table is the list of its entries.
\<close>

record partition_entry =
  lba_start :: "32 word"

record mbr_partition_table =
  partitions :: "partition_entry list"

definition LBA_BLOCK_SIZE :: nat where
  "LBA_BLOCK_SIZE = 512"

text \<open>
  Lines 90 to 98 of \<open>FileParser.__enter__\<close>: the validation of the table, and the bytes
  that \<open>seek(part_start_offset)\<close> followed by \<open>read()\<close> take from the boot image.
\<close>

definition partition_buffer :: "mbr_partition_table \<Rightarrow> byte list \<Rightarrow> py_error + byte list" where
  "partition_buffer mbr extracted_data =
     (case partitions mbr of
        [] \<Rightarrow> Inl IndexError
      | p0 # others \<Rightarrow>
          if lba_start p0 = 0 \<or> list_ex (\<lambda>p. lba_start p \<noteq> 0) others
          then Inl ValueError
          else Inr (drop (unat (lba_start p0) * LBA_BLOCK_SIZE) extracted_data))"

subsection \<open>The mounted volume\<close>

text \<open>
  FATtools is an external library. A directory entry answers \<open>IsDir()\<close>, \<open>Name()\<close>,
  \<open>IsLfn()\<close> and \<open>LongName()\<close>. A file has the size recorded in its directory entry and
  the bytes of its cluster chain. A handle has its own position; \<open>open\<close> on a path that
  names no file gives a handle that is not valid and has no \<open>File\<close>.
\<close>

record dirent =
  IsDir :: bool
  Name :: string
  IsLfn :: bool
  LongName :: string

record fat_file =
  filesize :: nat
  chain :: "byte list"

record fat_handle =
  IsValid :: bool
  File :: "fat_file option"
  pos :: nat

text \<open>
  The volume object: \<open>dirs path\<close> is what \<open>opendir(path).iterator()\<close> yields (\<open>None\<close>
  when \<open>opendir\<close> returns \<open>None\<close>), \<open>files path\<close> the file that \<open>open(path)\<close> finds, and
  \<open>handles\<close> the handle objects created so far, addressed by their index.
\<close>

record fat_volume =
  dirs :: "string \<Rightarrow> dirent list option"
  files :: "string \<Rightarrow> fat_file option"
  handles :: "fat_handle list"

definition volume_open :: "string \<Rightarrow> fat_volume \<Rightarrow> nat \<times> fat_volume" where
  "volume_open path v =
     (let h = (case files v path of
                 None \<Rightarrow> \<lparr>IsValid = False, File = None, pos = 0\<rparr>
               | Some f \<Rightarrow> \<lparr>IsValid = True, File = Some f, pos = 0\<rparr>)
      in (length (handles v), v\<lparr>handles := handles v @ [h]\<rparr>))"

definition handle_close :: "nat \<Rightarrow> fat_volume \<Rightarrow> fat_volume" where
  "handle_close h v =
     (if h < length (handles v)
      then v\<lparr>handles := (handles v)[h := (handles v ! h)\<lparr>IsValid := False\<rparr>]\<rparr>
      else v)"

text \<open>
  \<open>handle.read(size)\<close>: a negative size, or one that reaches past the recorded file
  size, reads up to the recorded size; the position advances by the bytes returned.
\<close>

definition handle_read :: "nat \<Rightarrow> int \<Rightarrow> fat_volume \<Rightarrow> py_error + (byte list \<times> fat_volume)" where
  "handle_read h sz v =
     (if \<not> h < length (handles v) then Inl AttributeError
      else
        let hnd = handles v ! h in
        case File hnd of
          None \<Rightarrow> Inl FATException
        | Some f \<Rightarrow>
            if \<not> IsValid hnd then Inl FATException
            else
              let n = (if sz < 0 \<or> int (pos hnd) + sz > int (filesize f)
                       then filesize f - pos hnd else nat sz);
                  bs = take n (drop (pos hnd) (chain f))
              in Inr (bs, v\<lparr>handles := (handles v)[h := hnd\<lparr>pos := pos hnd + length bs\<rparr>]\<rparr>))"

subsection \<open>Candidate capsules\<close>

definition join_slash :: "string list \<Rightarrow> string" where
  "join_slash parts = (case parts of [] \<Rightarrow> [] | p # ps \<Rightarrow> p @ concat (map (\<lambda>q. ''/'' @ q) ps))"

definition top_folder :: string where
  "top_folder = ''FLASH''"

definition f_name :: "dirent \<Rightarrow> string" where
  "f_name file = (if IsLfn file then LongName file else Name file)"

text \<open>The second loop of \<open>_find_candidate_capsules\<close>, before the final sort.\<close>

fun iso_scan_subdirs :: "fat_volume \<Rightarrow> string list \<Rightarrow> py_error + string list" where
  "iso_scan_subdirs volume [] = Inr []"
| "iso_scan_subdirs volume (d # ds) =
     (if d \<in> set [''.'', ''..''] then iso_scan_subdirs volume ds
      else
        case dirs volume (join_slash [top_folder, d]) of
          None \<Rightarrow> Inl AttributeError
        | Some entries \<Rightarrow>
            (case iso_scan_subdirs volume ds of
               Inl e \<Rightarrow> Inl e
             | Inr rest \<Rightarrow>
                 Inr (map (\<lambda>file. join_slash [top_folder, d, f_name file])
                        (filter (\<lambda>file. re_search (f_name file)) entries) @ rest)))"

definition iso_find_candidate_capsules :: "fat_volume \<Rightarrow> py_error + string list" where
  "iso_find_candidate_capsules volume =
     (case dirs volume top_folder of
        None \<Rightarrow> Inl AttributeError
      | Some entries \<Rightarrow>
          (case iso_scan_subdirs volume (map Name (filter IsDir entries)) of
             Inl e \<Rightarrow> Inl e
           | Inr file_info \<Rightarrow> Inr (sort file_info)))"

subsection \<open>FileParser and LenovoISOCapsule\<close>

record iso_FileParser =
  iso_path :: string
  volume :: fat_volume
  iso_capsules :: "(string \<times> string) list"

text \<open>
  \<open>FileParser.__enter__\<close>, on the path that \<open>__init__\<close> stored. The El Torito
  extraction, the partition-table parser and \<open>Volume.vopen\<close> are external: the boot
  image \<open>extracted_data\<close> is given, and \<open>from_bytes\<close> and \<open>vopen\<close> are parameters.
\<close>

definition iso_enter :: "(byte list \<Rightarrow> mbr_partition_table) \<Rightarrow> (byte list \<Rightarrow> fat_volume)
                          \<Rightarrow> string \<Rightarrow> byte list \<Rightarrow> py_error + iso_FileParser" where
  "iso_enter from_bytes vopen path extracted_data =
     (case partition_buffer (from_bytes extracted_data) extracted_data of
        Inl e \<Rightarrow> Inl e
      | Inr buf \<Rightarrow>
          (let vol = vopen buf in
           (case iso_find_candidate_capsules vol of
              Inl e \<Rightarrow> Inl e
            | Inr paths \<Rightarrow>
                Inr \<lparr>iso_path = path, volume = vol,
                     iso_capsules = dict_of_pairs (map (\<lambda>p. (basename p, p)) paths)\<rparr>)))"

definition iso_list_capsules :: "iso_FileParser \<Rightarrow> string list" where
  "iso_list_capsules fp = dict_keys (iso_capsules fp)"

record iso_capsule =
  iso_capsule_path :: string
  iso_capsule_handle :: "nat option"

text \<open>
  \<open>FileParser.open\<close> reads the parser's state and assigns nothing; the state is
  returned beside the result so that this can be stated.
\<close>

definition iso_open :: "string \<Rightarrow> iso_FileParser \<Rightarrow> (py_error + iso_capsule) \<times> iso_FileParser" where
  "iso_open capsule_name fp =
     (if capsule_name \<notin> set (dict_keys (iso_capsules fp)) then (Inl KeyError, fp)
      else
        case map_of (iso_capsules fp) capsule_name of
          None \<Rightarrow> (Inl KeyError, fp)
        | Some capsule_path \<Rightarrow>
            (Inr \<lparr>iso_capsule_path = capsule_path, iso_capsule_handle = None\<rparr>, fp))"

text \<open>
  The capsule object shares the volume with the parser, so its methods take the volume
  and return it updated.
\<close>

definition iso_capsule_enter :: "iso_capsule \<Rightarrow> fat_volume \<Rightarrow> iso_capsule \<times> fat_volume" where
  "iso_capsule_enter c v =
     (let (h, v') = volume_open (iso_capsule_path c) v
      in (c\<lparr>iso_capsule_handle := Some h\<rparr>, v'))"

definition iso_capsule_read :: "iso_capsule \<Rightarrow> int \<Rightarrow> fat_volume
                                 \<Rightarrow> py_error + (byte list \<times> fat_volume)" where
  "iso_capsule_read c sz v =
     (case iso_capsule_handle c of
        None \<Rightarrow> Inl AttributeError
      | Some h \<Rightarrow> handle_read h sz v)"

definition iso_capsule_size :: "iso_capsule \<Rightarrow> fat_volume \<Rightarrow> py_error + (nat \<times> fat_volume)" where
  "iso_capsule_size c v =
     (let (fopen, v1) = volume_open (iso_capsule_path c) v in
      case File (handles v1 ! fopen) of
        None \<Rightarrow> Inl AttributeError
      | Some f \<Rightarrow> Inr (filesize f, handle_close fopen v1))"

section \<open>Installer archive backend (extractors/lenovo_exe.py)\<close>

text \<open>
  What the external tool \<open>innoextract\<close> does for one installer: the exit status and
  standard output of the listing run, and for the extraction of one path the exit status
  and the files it writes below the output directory (keyed by their path relative to
  it).
\<close>

record exe_env =
  list_returncode :: int
  list_stdout :: string
  extract_returncode :: "string \<Rightarrow> int"
  extract_writes :: "string \<Rightarrow> (string \<Rightarrow> byte list option)"

text \<open>\<open>s[1:-1]\<close>\<close>

definition strip_ends :: "string \<Rightarrow> string" where
  "strip_ends s = butlast (tl s)"

text \<open>The loop over the lines of the listing.\<close>

fun exe_scan_lines :: "string list \<Rightarrow> py_error + string list" where
  "exe_scan_lines [] = Inr []"
| "exe_scan_lines (line # rest) =
     (if re_search line then
        (case split_ws line of
           t0 # t1 # ts \<Rightarrow>
             (case exe_scan_lines rest of
                Inl e \<Rightarrow> Inl e
              | Inr paths \<Rightarrow> Inr (strip_ends t1 # paths))
         | _ \<Rightarrow> Inl IndexError)
      else exe_scan_lines rest)"

definition exe_find_candidate_capsules :: "exe_env \<Rightarrow> py_error + string list" where
  "exe_find_candidate_capsules env =
     (if list_returncode env \<noteq> 0 then Inl (RuntimeError (list_returncode env))
      else exe_scan_lines (split_sep CHR 0x0A (list_stdout env)))"

text \<open>
  \<open>_extract_capsule\<close>: the files of the temporary directory after the run, and the path
  of the extracted file relative to it.
\<close>

definition exe_extract_capsule :: "exe_env \<Rightarrow> string \<Rightarrow> (string \<Rightarrow> byte list option)
                                    \<Rightarrow> (py_error + string) \<times> (string \<Rightarrow> byte list option)" where
  "exe_extract_capsule env capsule_path dir =
     (let dir' = dir ++ extract_writes env capsule_path in
      if extract_returncode env capsule_path \<noteq> 0
      then (Inl (RuntimeError (extract_returncode env capsule_path)), dir')
      else (Inr capsule_path, dir'))"

text \<open>A binary file object of Python: its bytes and its position.\<close>

record py_file =
  content :: "byte list"
  fpos :: nat

record exe_FileParser =
  exe_path :: string
  tempdir :: "string \<Rightarrow> byte list option"
  exe_capsules :: "(string \<times> string) list"

text \<open>
  \<open>FileParser.__enter__\<close>, on the path that \<open>__init__\<close> stored and with the temporary
  directory that \<open>__init__\<close> created, which is still empty.
\<close>

definition exe_enter :: "exe_env \<Rightarrow> string \<Rightarrow> py_error + exe_FileParser" where
  "exe_enter env path =
     (case exe_find_candidate_capsules env of
        Inl e \<Rightarrow> Inl e
      | Inr paths \<Rightarrow>
          Inr \<lparr>exe_path = path, tempdir = Map.empty,
               exe_capsules = dict_of_pairs (map (\<lambda>p. (basename p, p)) paths)\<rparr>)"

definition exe_list_capsules :: "exe_FileParser \<Rightarrow> string list" where
  "exe_list_capsules fp = dict_keys (exe_capsules fp)"

record exe_capsule =
  exe_capsule_path :: string
  exe_capsule_handle :: "py_file option"

definition exe_open :: "string \<Rightarrow> exe_FileParser \<Rightarrow> (py_error + exe_capsule) \<times> exe_FileParser" where
  "exe_open capsule_name fp =
     (if capsule_name \<notin> set (dict_keys (exe_capsules fp)) then (Inl KeyError, fp)
      else
        case map_of (exe_capsules fp) capsule_name of
          None \<Rightarrow> (Inl KeyError, fp)
        | Some capsule_path \<Rightarrow>
            (Inr \<lparr>exe_capsule_path = capsule_path, exe_capsule_handle = None\<rparr>, fp))"

text \<open>
  \<open>LenovoExeCapsule.__enter__\<close> extracts into the parser's temporary directory, which
  it returns updated, and opens the extracted file.
\<close>

definition exe_capsule_enter :: "exe_env \<Rightarrow> exe_capsule \<Rightarrow> (string \<Rightarrow> byte list option)
                                  \<Rightarrow> (py_error + exe_capsule) \<times> (string \<Rightarrow> byte list option)" where
  "exe_capsule_enter env c dir =
     (case exe_extract_capsule env (exe_capsule_path c) dir of
        (Inl e, dir') \<Rightarrow> (Inl e, dir')
      | (Inr extracted_capsule_path, dir') \<Rightarrow>
          (case dir' extracted_capsule_path of
             None \<Rightarrow> (Inl FileNotFoundError, dir')
           | Some bs \<Rightarrow>
               (Inr (c\<lparr>exe_capsule_handle := Some \<lparr>content = bs, fpos = 0\<rparr>\<rparr>), dir')))"

definition file_read :: "py_file \<Rightarrow> int \<Rightarrow> byte list \<times> py_file" where
  "file_read f sz =
     (let bs = (if sz < 0 then drop (fpos f) (content f)
                else take (nat sz) (drop (fpos f) (content f)))
      in (bs, f\<lparr>fpos := fpos f + length bs\<rparr>))"

definition exe_capsule_read :: "exe_capsule \<Rightarrow> int \<Rightarrow> py_error + (byte list \<times> exe_capsule)" where
  "exe_capsule_read c sz =
     (case exe_capsule_handle c of
        None \<Rightarrow> Inl AttributeError
      | Some f \<Rightarrow>
          (let (bs, f') = file_read f sz
           in Inr (bs, c\<lparr>exe_capsule_handle := Some f'\<rparr>)))"

text \<open>\<open>size()\<close>: \<open>seek(0, 2)\<close>, \<open>tell()\<close>, \<open>seek(0)\<close>.\<close>

definition exe_capsule_size :: "exe_capsule \<Rightarrow> py_error + (nat \<times> exe_capsule)" where
  "exe_capsule_size c =
     (case exe_capsule_handle c of
        None \<Rightarrow> Inl AttributeError
      | Some f \<Rightarrow>
          (let f1 = f\<lparr>fpos := length (content f)\<rparr>;
               sz = fpos f1;
               f2 = f1\<lparr>fpos := 0\<rparr>
           in Inr (sz, c\<lparr>exe_capsule_handle := Some f2\<rparr>)))"

section \<open>Verification of the firmware tree search\<close>

subsection \<open>Example trees\<close>

















subsection \<open>The two traversals\<close>









lemma dict_setitem_nonempty: "dict_setitem k v d \<noteq> []"
  by (cases d) auto






subsection \<open>Claims\<close>











section \<open>Verification of the container backends\<close>

subsection \<open>Vocabulary of the specification\<close>






text \<open>
  The listing that \<open>innoextract -l\<close> prints for an archive: a header line, then one line
  for each entry, made of a dash, the path in double quotes and the size in parentheses.
  The tool is external; this is its output format, which line 33 of the source relies on
  when it takes the second field and drops its first and last character. A header is
  accepted when it is one line without the pattern; an entry when its path has no white
  space and its size text has neither a line break nor the pattern.
\<close>

definition inno_line :: "string \<Rightarrow> string \<Rightarrow> string" where
  "inno_line p sz = '' - '' @ [CHR 0x22] @ p @ [CHR 0x22] @ '' ('' @ sz @ '')''"

definition inno_list_stdout :: "string \<Rightarrow> (string \<times> string) list \<Rightarrow> string" where
  "inno_list_stdout header entries =
     header @ [CHR 0x0A] @ concat (map (\<lambda>e. inno_line (fst e) (snd e) @ [CHR 0x0A]) entries)"




subsection \<open>Example containers\<close>

text \<open>
  A volume with \<open>FLASH/SUB1/BIOS.FL1\<close>, \<open>FLASH/SUB2/readme.txt\<close>, \<open>FLASH/SUB2/BIOS.FL1\<close>
  and \<open>FLASH/SUB2/image.FL22\<close>; a volume whose only file is \<open>FLASH/SUB1/BIOS.FL1.bak\<close>;
  a boot image of one sector followed by three bytes; and an installer with four entries,
  two of which share their final segment.
\<close>

definition ex_dir :: "string \<Rightarrow> dirent" where
  "ex_dir n = \<lparr>IsDir = True, Name = n, IsLfn = False, LongName = []\<rparr>"

definition ex_short_file :: "string \<Rightarrow> dirent" where
  "ex_short_file n = \<lparr>IsDir = False, Name = n, IsLfn = False, LongName = []\<rparr>"

definition ex_long_file :: "string \<Rightarrow> string \<Rightarrow> dirent" where
  "ex_long_file short long = \<lparr>IsDir = False, Name = short, IsLfn = True, LongName = long\<rparr>"

definition ex_capsule_file :: fat_file where
  "ex_capsule_file = \<lparr>filesize = 3, chain = [0x5F, 0x46, 0x56, 0, 0, 0, 0, 0]\<rparr>"

definition ex_dirs :: "string \<Rightarrow> dirent list option" where
  "ex_dirs p =
     (if p = ''FLASH'' then
        Some [ex_dir ''.'', ex_dir ''..'', ex_dir ''SUB2'', ex_dir ''SUB1'', ex_short_file ''AUTORUN.INF'']
      else if p = ''FLASH/SUB1'' then
        Some [ex_dir ''.'', ex_dir ''..'', ex_short_file ''BIOS.FL1'']
      else if p = ''FLASH/SUB2'' then
        Some [ex_dir ''.'', ex_dir ''..'', ex_long_file ''README~1.TXT'' ''readme.txt'',
              ex_short_file ''BIOS.FL1'', ex_long_file ''IMAGE~1.FL2'' ''image.FL22'']
      else None)"

definition ex_files :: "string \<Rightarrow> fat_file option" where
  "ex_files p =
     (if p \<in> set [''FLASH/SUB1/BIOS.FL1'', ''FLASH/SUB2/BIOS.FL1'', ''FLASH/SUB2/image.FL22'']
      then Some ex_capsule_file else None)"

definition ex_fat_volume :: fat_volume where
  "ex_fat_volume = \<lparr>dirs = ex_dirs, files = ex_files, handles = []\<rparr>"


definition ex_mbr :: "32 word \<Rightarrow> 32 word \<Rightarrow> 32 word \<Rightarrow> 32 word \<Rightarrow> mbr_partition_table" where
  "ex_mbr a b c d =
     \<lparr>partitions = [\<lparr>lba_start = a\<rparr>, \<lparr>lba_start = b\<rparr>, \<lparr>lba_start = c\<rparr>, \<lparr>lba_start = d\<rparr>]\<rparr>"

definition ex_boot_image :: "byte list" where
  "ex_boot_image = replicate 512 0 @ [0xEB, 0x3C, 0x90]"

definition ex_ifp :: iso_FileParser where
  "ex_ifp = \<lparr>iso_path = ''bios.iso'', volume = ex_fat_volume,
            iso_capsules = [(''BIOS.FL1'', ''FLASH/SUB2/BIOS.FL1''),
                            (''image.FL22'', ''FLASH/SUB2/image.FL22'')]\<rparr>"

definition ex_header :: string where
  "ex_header = ''Listing BIOS Update - setup data version 5.5.7''"

definition ex_entries :: "(string \<times> string) list" where
  "ex_entries = [(''app/BIOS.FL1'', ''8.01 MiB''), (''app/readme.txt'', ''1.2 KiB''),
                 (''tmp/BIOS.FL1'', ''8.01 MiB''), (''app/image.FL22'', ''4 MiB'')]"

definition ex_capsule_bytes :: "byte list" where
  "ex_capsule_bytes = [0x5F, 0x46, 0x56, 0x48, 0xFF]"

definition ex_env_of :: "(string \<times> string) list \<Rightarrow> int \<Rightarrow> exe_env" where
  "ex_env_of entries rc =
     \<lparr>list_returncode = 0,
      list_stdout = inno_list_stdout ex_header entries,
      extract_returncode = (\<lambda>p. if p \<in> set (map fst entries) then 0 else rc),
      extract_writes = (\<lambda>p. if p \<in> set (map fst entries) then [p \<mapsto> ex_capsule_bytes]
                             else Map.empty)\<rparr>"

definition ex_env :: exe_env where
  "ex_env = ex_env_of ex_entries 1"

definition ex_from_bytes :: "byte list \<Rightarrow> mbr_partition_table" where
  "ex_from_bytes bs = ex_mbr 1 0 0 0"

definition ex_vopen :: "byte list \<Rightarrow> fat_volume" where
  "ex_vopen bs = ex_fat_volume"

definition ex_efp :: exe_FileParser where
  "ex_efp = \<lparr>exe_path = ''update.exe'', tempdir = Map.empty,
            exe_capsules = [(''BIOS.FL1'', ''tmp/BIOS.FL1''), (''image.FL22'', ''app/image.FL22'')]\<rparr>"

definition ex_space_entries :: "(string \<times> string) list" where
  "ex_space_entries = [(''app/my bios.FL1'', ''8.01 MiB'')]"

text \<open>
  A partition table with two populated entries; a capsule of each backend after some
  bytes were read from it; and an installer whose only entry has a space in its path.
\<close>

definition ex_bad_from_bytes :: "byte list \<Rightarrow> mbr_partition_table" where
  "ex_bad_from_bytes bs = ex_mbr 1 0 2048 0"




definition ex_space_capsule :: exe_capsule where
  "ex_space_capsule = \<lparr>exe_capsule_path = ''app/m'', exe_capsule_handle = None\<rparr>"

subsection \<open>Dictionaries\<close>

lemma dict_setitem_map_of: "map_of (dict_setitem k v d) = (map_of d)(k \<mapsto> v)"
  by (induction d) (auto simp: fun_eq_iff)

lemma dict_setitem_keys:
  "map fst (dict_setitem k v d) = (if k \<in> fst ` set d then map fst d else map fst d @ [k])"
  by (induction d) auto

lemma dict_setitem_distinct:
  "distinct (map fst d) \<Longrightarrow> distinct (map fst (dict_setitem k v d))"
  by (simp add: dict_setitem_keys)

lemma dict_fold_map_of:
  "map_of (foldl (\<lambda>d p. dict_setitem (fst p) (snd p) d) d ps) = map_of d ++ map_of (rev ps)"
proof (induction ps arbitrary: d)
  case Nil
  then show ?case by simp
next
  case (Cons p ps)
  show ?case
    by (simp add: Cons.IH dict_setitem_map_of map_add_def fun_eq_iff split: option.splits)
qed

lemma dict_setitem_key_set: "fst ` set (dict_setitem k v d) = insert k (fst ` set d)"
  by (induction d) auto

lemma dict_fold_keys:
  "fst ` set (foldl (\<lambda>d p. dict_setitem (fst p) (snd p) d) d ps) = fst ` set d \<union> fst ` set ps"
proof (induction ps arbitrary: d)
  case Nil
  then show ?case by simp
next
  case (Cons p ps)
  show ?case by (simp add: Cons.IH dict_setitem_key_set)
qed

lemma dict_fold_distinct:
  "distinct (map fst d) \<Longrightarrow> distinct (map fst (foldl (\<lambda>d p. dict_setitem (fst p) (snd p) d) d ps))"
  by (induction ps arbitrary: d) (simp_all add: dict_setitem_distinct)

lemma dict_of_pairs_keys: "set (dict_keys (dict_of_pairs ps)) = fst ` set ps"
  by (simp add: dict_keys_def dict_of_pairs_def dict_fold_keys)

lemma dict_of_pairs_distinct: "distinct (dict_keys (dict_of_pairs ps))"
  by (simp add: dict_keys_def dict_of_pairs_def dict_fold_distinct)

lemma dict_of_pairs_map_of: "map_of (dict_of_pairs ps) = map_of (rev ps)"
  by (simp add: dict_of_pairs_def dict_fold_map_of)

lemma map_of_rev_last:
  "map_of (rev (map (\<lambda>p. (f p, p)) paths)) n =
     (if filter (\<lambda>p. f p = n) paths = [] then None
      else Some (last (filter (\<lambda>p. f p = n) paths)))"
  by (induction paths rule: rev_induct) auto

lemma name_dict_lookup:
  "map_of (dict_of_pairs (map (\<lambda>p. (basename p, p)) paths)) n =
     (if filter (\<lambda>p. basename p = n) paths = [] then None
      else Some (last (filter (\<lambda>p. basename p = n) paths)))"
  by (simp only: dict_of_pairs_map_of map_of_rev_last)

lemma name_dict_keys:
  "set (dict_keys (dict_of_pairs (map (\<lambda>p. (basename p, p)) paths))) = basename ` set paths"
  by (simp add: dict_of_pairs_keys image_image)

lemma iso_enter_capsules:
  assumes "iso_enter from_bytes vopen path extracted_data = Inr fp"
  shows "\<exists>paths. iso_find_candidate_capsules (volume fp) = Inr paths
           \<and> iso_capsules fp = dict_of_pairs (map (\<lambda>p. (basename p, p)) paths)"
  using assms by (auto simp: iso_enter_def Let_def split: sum.splits)

lemma exe_enter_capsules:
  assumes "exe_enter env path = Inr fp"
  shows "\<exists>paths. exe_find_candidate_capsules env = Inr paths
           \<and> exe_capsules fp = dict_of_pairs (map (\<lambda>p. (basename p, p)) paths)
           \<and> tempdir fp = Map.empty"
  using assms by (auto simp: exe_enter_def split: sum.splits)

subsection \<open>Splitting, final segments and the pattern\<close>























subsection \<open>The example containers, evaluated\<close>

lemma ex_partition_buffer: "partition_buffer (ex_from_bytes ex_boot_image) ex_boot_image = Inr [0xEB, 0x3C, 0x90]"
  by code_simp

lemma ex_iso_candidates:
  "iso_find_candidate_capsules ex_fat_volume
     = Inr [''FLASH/SUB1/BIOS.FL1'', ''FLASH/SUB2/BIOS.FL1'', ''FLASH/SUB2/image.FL22'']"
  by code_simp

lemma ex_iso_dict:
  "dict_of_pairs (map (\<lambda>p. (basename p, p))
      [''FLASH/SUB1/BIOS.FL1'', ''FLASH/SUB2/BIOS.FL1'', ''FLASH/SUB2/image.FL22''])
   = [(''BIOS.FL1'', ''FLASH/SUB2/BIOS.FL1''), (''image.FL22'', ''FLASH/SUB2/image.FL22'')]"
  by code_simp

lemma ex_iso_enter: "iso_enter ex_from_bytes ex_vopen ''bios.iso'' ex_boot_image = Inr ex_ifp"
  by (simp only: iso_enter_def ex_partition_buffer sum.case Let_def ex_vopen_def
      ex_iso_candidates ex_iso_dict ex_ifp_def)

lemma ex_exe_candidates:
  "exe_find_candidate_capsules ex_env = Inr [''app/BIOS.FL1'', ''tmp/BIOS.FL1'', ''app/image.FL22'']"
  by code_simp

lemma ex_exe_dict:
  "dict_of_pairs (map (\<lambda>p. (basename p, p)) [''app/BIOS.FL1'', ''tmp/BIOS.FL1'', ''app/image.FL22''])
   = [(''BIOS.FL1'', ''tmp/BIOS.FL1''), (''image.FL22'', ''app/image.FL22'')]"
  by code_simp

lemma ex_exe_enter: "exe_enter ex_env ''update.exe'' = Inr ex_efp"
  by (simp only: exe_enter_def ex_exe_candidates sum.case ex_exe_dict ex_efp_def)

subsection \<open>Claims about listing and opening\<close>




text \<open>
  C8. In both backends \<open>open\<close> on a name that is not among the listed entries raises
  \<open>KeyError\<close> and leaves the parser's state (path, entry dictionary, mounted volume or
  temporary directory) as it was.
\<close>

theorem open_absent_name_KeyError:
  "(capsule_name \<notin> set (iso_list_capsules ifp) \<longrightarrow> iso_open capsule_name ifp = (Inl KeyError, ifp))
   \<and> (capsule_name \<notin> set (exe_list_capsules efp) \<longrightarrow> exe_open capsule_name efp = (Inl KeyError, efp))"
  by (simp add: iso_open_def exe_open_def iso_list_capsules_def exe_list_capsules_def)

theorem open_absent_name_KeyError_witness:
  "''other.FL1'' \<notin> set (iso_list_capsules ex_ifp)
   \<and> iso_open ''other.FL1'' ex_ifp = (Inl KeyError, ex_ifp)
   \<and> ''other.FL1'' \<notin> set (exe_list_capsules ex_efp)
   \<and> exe_open ''other.FL1'' ex_efp = (Inl KeyError, ex_efp)"
proof -
  have h1: "''other.FL1'' \<notin> set (iso_list_capsules ex_ifp)" by code_simp
  have h2: "''other.FL1'' \<notin> set (exe_list_capsules ex_efp)" by code_simp
  from open_absent_name_KeyError[of "''other.FL1''" ex_ifp ex_efp] h1 h2
  show ?thesis by blast
qed

text \<open>
  C9. In both backends the listed names are the final segments of the candidate paths,
  each exactly once, and \<open>open\<close> on the final segment of a candidate path gives the
  capsule of the last candidate path, in enumeration order, that has this final segment;
  candidates of the same name that come earlier cannot be opened.
\<close>

theorem same_name_last_path_wins:
  "(iso_enter from_bytes vopen path extracted_data = Inr ifp \<longrightarrow>
      (\<exists>paths. iso_find_candidate_capsules (volume ifp) = Inr paths
         \<and> distinct (iso_list_capsules ifp)
         \<and> set (iso_list_capsules ifp) = basename ` set paths
         \<and> list_all (\<lambda>p. iso_open (basename p) ifp =
              (Inr \<lparr>iso_capsule_path = last (filter (\<lambda>q. basename q = basename p) paths),
                    iso_capsule_handle = None\<rparr>, ifp)) paths))
   \<and> (exe_enter env path' = Inr efp \<longrightarrow>
      (\<exists>paths. exe_find_candidate_capsules env = Inr paths
         \<and> distinct (exe_list_capsules efp)
         \<and> set (exe_list_capsules efp) = basename ` set paths
         \<and> list_all (\<lambda>p. exe_open (basename p) efp =
              (Inr \<lparr>exe_capsule_path = last (filter (\<lambda>q. basename q = basename p) paths),
                    exe_capsule_handle = None\<rparr>, efp)) paths))"
proof (intro conjI impI)
  assume "iso_enter from_bytes vopen path extracted_data = Inr ifp"
  from iso_enter_capsules[OF this] obtain paths where
    p: "iso_find_candidate_capsules (volume ifp) = Inr paths"
    and c: "iso_capsules ifp = dict_of_pairs (map (\<lambda>p. (basename p, p)) paths)" by blast
  have "iso_open (basename p) ifp =
      (Inr \<lparr>iso_capsule_path = last (filter (\<lambda>q. basename q = basename p) paths),
            iso_capsule_handle = None\<rparr>, ifp)" if "p \<in> set paths" for p
  proof -
    from that have "filter (\<lambda>q. basename q = basename p) paths \<noteq> []"
      by (auto simp: filter_empty_conv)
    moreover from that have "basename p \<in> set (dict_keys (iso_capsules ifp))"
      by (simp only: c name_dict_keys) simp
    ultimately show ?thesis
      by (simp add: iso_open_def c name_dict_lookup)
  qed
  with p c show "\<exists>paths. iso_find_candidate_capsules (volume ifp) = Inr paths
         \<and> distinct (iso_list_capsules ifp)
         \<and> set (iso_list_capsules ifp) = basename ` set paths
         \<and> list_all (\<lambda>p. iso_open (basename p) ifp =
              (Inr \<lparr>iso_capsule_path = last (filter (\<lambda>q. basename q = basename p) paths),
                    iso_capsule_handle = None\<rparr>, ifp)) paths"
    by (simp add: iso_list_capsules_def dict_of_pairs_distinct name_dict_keys list_all_iff)
next
  assume "exe_enter env path' = Inr efp"
  from exe_enter_capsules[OF this] obtain paths where
    p: "exe_find_candidate_capsules env = Inr paths"
    and c: "exe_capsules efp = dict_of_pairs (map (\<lambda>p. (basename p, p)) paths)" by blast
  have "exe_open (basename p) efp =
      (Inr \<lparr>exe_capsule_path = last (filter (\<lambda>q. basename q = basename p) paths),
            exe_capsule_handle = None\<rparr>, efp)" if "p \<in> set paths" for p
  proof -
    from that have "filter (\<lambda>q. basename q = basename p) paths \<noteq> []"
      by (auto simp: filter_empty_conv)
    moreover from that have "basename p \<in> set (dict_keys (exe_capsules efp))"
      by (simp only: c name_dict_keys) simp
    ultimately show ?thesis
      by (simp add: exe_open_def c name_dict_lookup)
  qed
  with p c show "\<exists>paths. exe_find_candidate_capsules env = Inr paths
         \<and> distinct (exe_list_capsules efp)
         \<and> set (exe_list_capsules efp) = basename ` set paths
         \<and> list_all (\<lambda>p. exe_open (basename p) efp =
              (Inr \<lparr>exe_capsule_path = last (filter (\<lambda>q. basename q = basename p) paths),
                    exe_capsule_handle = None\<rparr>, efp)) paths"
    by (simp add: exe_list_capsules_def dict_of_pairs_distinct name_dict_keys list_all_iff)
qed

theorem same_name_last_path_wins_witness:
  "iso_enter ex_from_bytes ex_vopen ''bios.iso'' ex_boot_image = Inr ex_ifp
   \<and> exe_enter ex_env ''update.exe'' = Inr ex_efp
   \<and> (\<exists>paths. iso_find_candidate_capsules (volume ex_ifp) = Inr paths
         \<and> distinct (iso_list_capsules ex_ifp)
         \<and> set (iso_list_capsules ex_ifp) = basename ` set paths
         \<and> list_all (\<lambda>p. iso_open (basename p) ex_ifp =
              (Inr \<lparr>iso_capsule_path = last (filter (\<lambda>q. basename q = basename p) paths),
                    iso_capsule_handle = None\<rparr>, ex_ifp)) paths)
   \<and> (\<exists>paths. exe_find_candidate_capsules ex_env = Inr paths
         \<and> distinct (exe_list_capsules ex_efp)
         \<and> set (exe_list_capsules ex_efp) = basename ` set paths
         \<and> list_all (\<lambda>p. exe_open (basename p) ex_efp =
              (Inr \<lparr>exe_capsule_path = last (filter (\<lambda>q. basename q = basename p) paths),
                    exe_capsule_handle = None\<rparr>, ex_efp)) paths)
   \<and> iso_find_candidate_capsules (volume ex_ifp)
       = Inr [''FLASH/SUB1/BIOS.FL1'', ''FLASH/SUB2/BIOS.FL1'', ''FLASH/SUB2/image.FL22'']
   \<and> iso_list_capsules ex_ifp = [''BIOS.FL1'', ''image.FL22'']
   \<and> fst (iso_open ''BIOS.FL1'' ex_ifp)
       = Inr \<lparr>iso_capsule_path = ''FLASH/SUB2/BIOS.FL1'', iso_capsule_handle = None\<rparr>
   \<and> exe_find_candidate_capsules ex_env = Inr [''app/BIOS.FL1'', ''tmp/BIOS.FL1'', ''app/image.FL22'']
   \<and> exe_list_capsules ex_efp = [''BIOS.FL1'', ''image.FL22'']
   \<and> fst (exe_open ''BIOS.FL1'' ex_efp)
       = Inr \<lparr>exe_capsule_path = ''tmp/BIOS.FL1'', exe_capsule_handle = None\<rparr>"
proof -
  have v1: "iso_find_candidate_capsules (volume ex_ifp)
       = Inr [''FLASH/SUB1/BIOS.FL1'', ''FLASH/SUB2/BIOS.FL1'', ''FLASH/SUB2/image.FL22'']"
    by code_simp
  have v2: "iso_list_capsules ex_ifp = [''BIOS.FL1'', ''image.FL22'']" by code_simp
  have v3: "fst (iso_open ''BIOS.FL1'' ex_ifp)
       = Inr \<lparr>iso_capsule_path = ''FLASH/SUB2/BIOS.FL1'', iso_capsule_handle = None\<rparr>"
    by code_simp
  have v4: "exe_list_capsules ex_efp = [''BIOS.FL1'', ''image.FL22'']" by code_simp
  have v5: "fst (exe_open ''BIOS.FL1'' ex_efp)
       = Inr \<lparr>exe_capsule_path = ''tmp/BIOS.FL1'', exe_capsule_handle = None\<rparr>"
    by code_simp
  from same_name_last_path_wins[of ex_from_bytes ex_vopen "''bios.iso''" ex_boot_image ex_ifp
      ex_env "''update.exe''" ex_efp] ex_iso_enter ex_exe_enter ex_exe_candidates v1 v2 v3 v4 v5
  show ?thesis by blast
qed

subsection \<open>Claims about the partition table and the handles\<close>

text \<open>
  C3. For a table of four entries the validation accepts iff entry 0 has a non-zero
  \<open>lba_start\<close> and entries 1, 2 and 3 have \<open>lba_start\<close> zero. When it accepts, the payload
  handed to the file-system layer is every byte of the boot image from offset
  \<open>lba_start * 512\<close> to its end, and the construction goes on with the volume mounted on
  it. In every other case the construction raises \<open>ValueError\<close>.
\<close>

theorem partition_validation:
  assumes "partitions (from_bytes extracted_data) = [p0, p1, p2, p3]"
  shows "(lba_start p0 \<noteq> 0 \<and> lba_start p1 = 0 \<and> lba_start p2 = 0 \<and> lba_start p3 = 0
          \<longrightarrow> partition_buffer (from_bytes extracted_data) extracted_data
                = Inr (drop (unat (lba_start p0) * 512) extracted_data)
              \<and> iso_enter from_bytes vopen path extracted_data
                = (case iso_find_candidate_capsules
                          (vopen (drop (unat (lba_start p0) * 512) extracted_data)) of
                     Inl e \<Rightarrow> Inl e
                   | Inr paths \<Rightarrow>
                       Inr \<lparr>iso_path = path,
                            volume = vopen (drop (unat (lba_start p0) * 512) extracted_data),
                            iso_capsules = dict_of_pairs (map (\<lambda>p. (basename p, p)) paths)\<rparr>))
         \<and> (\<not> (lba_start p0 \<noteq> 0 \<and> lba_start p1 = 0 \<and> lba_start p2 = 0 \<and> lba_start p3 = 0)
          \<longrightarrow> partition_buffer (from_bytes extracted_data) extracted_data = Inl ValueError
              \<and> iso_enter from_bytes vopen path extracted_data = Inl ValueError)"
proof -
  let ?ok = "lba_start p0 \<noteq> 0 \<and> lba_start p1 = 0 \<and> lba_start p2 = 0 \<and> lba_start p3 = 0"
  have pb: "partition_buffer (from_bytes extracted_data) extracted_data
            = (if ?ok then Inr (drop (unat (lba_start p0) * 512) extracted_data)
               else Inl ValueError)"
    using assms by (auto simp: partition_buffer_def LBA_BLOCK_SIZE_def)
  show ?thesis
  proof (cases ?ok)
    case True
    with pb show ?thesis by (simp add: iso_enter_def Let_def)
  next
    case False
    with pb show ?thesis by (simp add: iso_enter_def)
  qed
qed

theorem partition_validation_witness:
  "partitions (ex_from_bytes ex_boot_image) = [\<lparr>lba_start = 1\<rparr>, \<lparr>lba_start = 0\<rparr>, \<lparr>lba_start = 0\<rparr>, \<lparr>lba_start = 0\<rparr>]
   \<and> partition_buffer (ex_from_bytes ex_boot_image) ex_boot_image
       = Inr (drop (unat (1 :: 32 word) * 512) ex_boot_image)
   \<and> drop (unat (1 :: 32 word) * 512) ex_boot_image = [0xEB, 0x3C, 0x90]
   \<and> iso_enter ex_from_bytes ex_vopen ''bios.iso'' ex_boot_image = Inr ex_ifp
   \<and> partitions (ex_bad_from_bytes ex_boot_image) = [\<lparr>lba_start = 1\<rparr>, \<lparr>lba_start = 0\<rparr>, \<lparr>lba_start = 2048\<rparr>, \<lparr>lba_start = 0\<rparr>]
   \<and> partition_buffer (ex_bad_from_bytes ex_boot_image) ex_boot_image = Inl ValueError
   \<and> iso_enter ex_bad_from_bytes ex_vopen ''bios.iso'' ex_boot_image = Inl ValueError"
proof -
  have h1: "partitions (ex_from_bytes ex_boot_image) = [\<lparr>lba_start = 1\<rparr>, \<lparr>lba_start = 0\<rparr>, \<lparr>lba_start = 0\<rparr>, \<lparr>lba_start = 0\<rparr>]"
    by (simp add: ex_from_bytes_def ex_mbr_def)
  have h2: "partitions (ex_bad_from_bytes ex_boot_image) = [\<lparr>lba_start = 1\<rparr>, \<lparr>lba_start = 0\<rparr>, \<lparr>lba_start = 2048\<rparr>, \<lparr>lba_start = 0\<rparr>]"
    by (simp add: ex_bad_from_bytes_def ex_mbr_def)
  have v: "drop (unat (1 :: 32 word) * 512) ex_boot_image = [0xEB, 0x3C, 0x90]"
    by (simp add: ex_boot_image_def)
  from partition_validation[of ex_from_bytes ex_boot_image "\<lparr>lba_start = 1\<rparr>" "\<lparr>lba_start = 0\<rparr>"
      "\<lparr>lba_start = 0\<rparr>" "\<lparr>lba_start = 0\<rparr>" ex_vopen "''bios.iso''"] h1
  have a: "partition_buffer (ex_from_bytes ex_boot_image) ex_boot_image
       = Inr (drop (unat (1 :: 32 word) * 512) ex_boot_image)" by simp
  from partition_validation[of ex_bad_from_bytes ex_boot_image "\<lparr>lba_start = 1\<rparr>" "\<lparr>lba_start = 0\<rparr>"
      "\<lparr>lba_start = 2048\<rparr>" "\<lparr>lba_start = 0\<rparr>" ex_vopen "''bios.iso''"] h2
  have b: "partition_buffer (ex_bad_from_bytes ex_boot_image) ex_boot_image = Inl ValueError"
    and c: "iso_enter ex_bad_from_bytes ex_vopen ''bios.iso'' ex_boot_image = Inl ValueError"
    by simp_all
  from h1 h2 v a b c ex_iso_enter show ?thesis by blast
qed






text \<open>
  C7. Where the capsule's file opens, \<open>size()\<close> is the number of bytes that reading from
  the start to exhaustion returns: in the installer backend always, in the optical-image
  backend when the cluster chain holds the recorded number of bytes.
\<close>

lemma exe_size_equals_read_all:
  assumes "exe_capsule_enter env c dir = (Inr c', dir')"
  shows "\<exists>bs. exe_capsule_handle c' = Some \<lparr>content = bs, fpos = 0\<rparr>
              \<and> map_sum id fst (exe_capsule_size c') = Inr (length bs)
              \<and> map_sum id fst (exe_capsule_read c' (- 1)) = Inr bs"
proof -
  from assms obtain bs where "c' = c\<lparr>exe_capsule_handle := Some \<lparr>content = bs, fpos = 0\<rparr>\<rparr>"
    by (auto simp: exe_capsule_enter_def exe_extract_capsule_def Let_def
        split: if_splits option.splits)
  then show ?thesis
    by (simp add: exe_capsule_size_def exe_capsule_read_def file_read_def Let_def)
qed

lemma iso_size_equals_read_all:
  assumes "files v (iso_capsule_path c) = Some ff"
    and "filesize ff \<le> length (chain ff)"
    and "iso_capsule_enter c v = (c', v')"
  shows "map_sum id fst (iso_capsule_size c' v') = Inr (filesize ff)
         \<and> map_sum id (\<lambda>r. length (fst r)) (iso_capsule_read c' (- 1) v') = Inr (filesize ff)"
proof -
  let ?new = "\<lparr>IsValid = True, File = Some ff, pos = 0\<rparr>"
  from assms(1,3) have c': "c' = c\<lparr>iso_capsule_handle := Some (length (handles v))\<rparr>"
    and v': "v' = v\<lparr>handles := handles v @ [?new]\<rparr>"
    by (auto simp: iso_capsule_enter_def volume_open_def)
  have "(handles v @ [?new, ?new]) ! Suc (length (handles v)) = ?new"
    by (simp add: nth_append)
  then have "map_sum id fst (iso_capsule_size c' v') = Inr (filesize ff)"
    by (simp add: iso_capsule_size_def volume_open_def c' v' assms(1))
  moreover have "map_sum id (\<lambda>r. length (fst r)) (iso_capsule_read c' (- 1) v') = Inr (filesize ff)"
    using assms(2) by (simp add: iso_capsule_read_def handle_read_def c' v' Let_def)
  ultimately show ?thesis by simp
qed

text \<open>
  C7, the listed entry that does not open. The installer's only entry is
  \<open>app/my bios.FL1\<close>. Its listing line contains the pattern; the second white-space
  separated field of the line is the opening quote followed by \<open>app/my\<close>, so the stored
  path is \<open>app/m\<close> and the listed name is \<open>m\<close>. \<open>open\<close> on that name gives a capsule for
  \<open>app/m\<close>, which the archive does not hold: entering it raises \<open>FileNotFoundError\<close> when
  the tool exits with 0 on a path it does not find, and \<open>RuntimeError\<close> when it exits
  with 1.
\<close>

theorem whitespace_path_not_openable:
  "exe_find_candidate_capsules (ex_env_of ex_space_entries 0) = Inr [''app/m'']
   \<and> map_sum id exe_list_capsules (exe_enter (ex_env_of ex_space_entries 0) ''update.exe'')
       = Inr [''m'']
   \<and> map_sum id (\<lambda>fp. fst (exe_open ''m'' fp)) (exe_enter (ex_env_of ex_space_entries 0) ''update.exe'')
       = Inr (Inr ex_space_capsule)
   \<and> fst (exe_capsule_enter (ex_env_of ex_space_entries 0) ex_space_capsule Map.empty)
       = Inl FileNotFoundError
   \<and> fst (exe_capsule_enter (ex_env_of ex_space_entries 1) ex_space_capsule Map.empty)
       = Inl (RuntimeError 1)"
  by code_simp

end
